theory Spec2Isabelle
  imports Complex_Main
begin

section \<open>DWI quality metrics and NHDR header synthesis: a shallow embedding\<close>

text \<open>
  The development embeds the numerical core of \<^verbatim>\<open>dwi_quality.py\<close> (histogram reporter,
  bin-edge synthesizer, range masks, signal-drop detector, loading of the volume, the
  summary) and of \<^verbatim>\<open>nhdr_write.py\<close> (measurement frame, gradient scaling). Python floats
  are idealised as \<^typ>\<open>real\<close>: rounding is not modelled. Where the source can produce a
  NaN or an infinity by a division, the value is kept in the type \<open>float64\<close> below.
  Python exceptions are values of \<open>py_error\<close>; \<open>NanResult\<close> is no exception but marks a
  NaN the real-valued array model cannot hold. Printing is not modelled.
\<close>

subsection \<open>Errors and the float values a division can produce\<close>

datatype py_error = IndexError | ValueError | AttributeError | UnboundLocalError
  | AxisError | ZeroDivisionError | NanResult

datatype float64 = Finite real | PInf | NInf | NaN

text \<open>
  numpy's true division of two integers: a zero divisor gives a warning and an infinity,
  or NaN for \<open>0 / 0\<close>; it does not raise.
\<close>

fun true_divide :: "int \<Rightarrow> int \<Rightarrow> float64" where
  "true_divide a b =
     (if b \<noteq> 0 then Finite (real_of_int a / real_of_int b)
      else if a > 0 then PInf else if a < 0 then NInf else NaN)"

fun times_int :: "float64 \<Rightarrow> int \<Rightarrow> float64" where
  "times_int (Finite r) k = Finite (r * real_of_int k)"
| "times_int PInf k = (if k > 0 then PInf else if k < 0 then NInf else NaN)"
| "times_int NInf k = (if k > 0 then NInf else if k < 0 then PInf else NaN)"
| "times_int NaN k = NaN"

fun fadd :: "float64 \<Rightarrow> float64 \<Rightarrow> float64" where
  "fadd (Finite a) (Finite b) = Finite (a + b)"
| "fadd NaN y = NaN"
| "fadd x NaN = NaN"
| "fadd PInf NInf = NaN"
| "fadd NInf PInf = NaN"
| "fadd PInf y = PInf"
| "fadd x PInf = PInf"
| "fadd NInf y = NInf"
| "fadd x NInf = NInf"

definition np_sum :: "float64 list \<Rightarrow> float64" where
  "np_sum h = foldl fadd (Finite 0) h"

subsection \<open>Python's \<open>max\<close>, \<open>min\<close> and numpy's \<open>mean\<close> of a list\<close>

fun py_max :: "real list \<Rightarrow> py_error + real" where
  "py_max [] = Inl ValueError"
| "py_max [x] = Inr x"
| "py_max (x # y # ys) = (case py_max (y # ys) of Inl e \<Rightarrow> Inl e | Inr m \<Rightarrow> Inr (max x m))"

fun py_min :: "real list \<Rightarrow> py_error + real" where
  "py_min [] = Inl ValueError"
| "py_min [x] = Inr x"
| "py_min (x # y # ys) = (case py_min (y # ys) of Inl e \<Rightarrow> Inl e | Inr m \<Rightarrow> Inr (min x m))"

definition np_mean :: "real list \<Rightarrow> real" where
  "np_mean xs = sum_list xs / real (length xs)"

subsection \<open>\<open>form_bins\<close>: the bin-edge synthesizer\<close>

text \<open>
  \<^verbatim>\<open>form_bins(interval)\<close> appends to and sorts the list object it is given when the
  product of the first two entries is negative, and returns that same object; otherwise it
  rebinds its local name to a fresh three-element list, sorts and returns that, leaving
  the argument alone. The model returns the pair (returned list, the caller's list after
  the call). \<^verbatim>\<open>interval[0]\<close> and \<^verbatim>\<open>interval[1]\<close> raise IndexError on a shorter list.
\<close>

definition form_bins :: "real list \<Rightarrow> py_error + (real list \<times> real list)" where
  "form_bins interval =
     (if length interval < 2 then Inl IndexError
      else if interval ! 0 * interval ! 1 < 0 then
        (let i1 = interval @ [0] in
         case py_max i1 of Inl e \<Rightarrow> Inl e | Inr mx \<Rightarrow>
         (let i2 = (if mx > 1 then i1 @ [1] else i1) in
          case py_min i2 of Inl e \<Rightarrow> Inl e | Inr mn \<Rightarrow>
          (let i3 = (if mn < - 1 then i2 @ [- 1] else i2)
           in Inr (sort i3, sort i3))))
      else Inr (sort [interval ! 0, np_mean interval, interval ! 1], interval))"

text \<open>The edges the specification describes for a sign-straddling interval.\<close>

definition straddle_edges :: "real \<Rightarrow> real \<Rightarrow> real list" where
  "straddle_edges low high =
     sort ([low, high, 0] @ (if 1 < max low high then [1] else [])
            @ (if min low high < - 1 then [- 1] else []))"

subsection \<open>\<open>hist_calc\<close>: the histogram reporter\<close>

text \<open>
  \<^verbatim>\<open>np.histogram(a, bins=edges)[0]\<close> for an explicit edge list: it raises ValueError
  unless the edges increase monotonically; every bin is half-open \<open>[e\<^sub>i, e\<^sub>i\<^sub>+\<^sub>1)\<close> but the
  last, which is closed; elements outside \<open>[e\<^sub>0, e\<^sub>l\<^sub>a\<^sub>s\<^sub>t]\<close> are counted nowhere. The field is
  the flattened array.
\<close>

fun bin_counts :: "real list \<Rightarrow> real list \<Rightarrow> int list" where
  "bin_counts a [e0, e1] = [int (length (filter (\<lambda>x. e0 \<le> x \<and> x \<le> e1) a))]"
| "bin_counts a (e0 # e1 # es) =
     int (length (filter (\<lambda>x. e0 \<le> x \<and> x < e1) a)) # bin_counts a (e1 # es)"
| "bin_counts a es = []"

definition np_histogram :: "real list \<Rightarrow> real list \<Rightarrow> py_error + int list" where
  "np_histogram a bins = (if sorted bins then Inr (bin_counts a bins) else Inl ValueError)"

text \<open>
  What can stand between the brackets of \<^verbatim>\<open>hist[...] = v\<close>. The source writes
  \<^verbatim>\<open>hist[np.isnan]= 0\<close>: the index is the function object \<^verbatim>\<open>np.isnan\<close> itself, not the
  boolean array \<^verbatim>\<open>np.isnan(hist)\<close>. numpy refuses such an index with IndexError, and the
  bare \<^verbatim>\<open>except: pass\<close> around the assignment swallows it.
\<close>

datatype np_index = IntIndex int | BoolMask "bool list" | FunctionObject

fun setitem :: "float64 list \<Rightarrow> np_index \<Rightarrow> float64 \<Rightarrow> py_error + float64 list" where
  "setitem h (IntIndex i) v =
     (if 0 \<le> i \<and> i < int (length h) then Inr (h[nat i := v])
      else if i < 0 \<and> - int (length h) \<le> i then Inr (h[nat (int (length h) + i) := v])
      else Inl IndexError)"
| "setitem h (BoolMask m) v =
     (if length m = length h then Inr (map2 (\<lambda>b x. if b then v else x) m h)
      else Inl IndexError)"
| "setitem h FunctionObject v = Inl IndexError"

definition hist_calc :: "real list \<Rightarrow> real list \<Rightarrow> py_error + float64 list" where
  "hist_calc a bins =
     (case np_histogram a bins of
        Inl e \<Rightarrow> Inl e
      | Inr temp \<Rightarrow>
          (let hist = map (\<lambda>c. true_divide c (sum_list temp)) temp
           in Inr (case setitem hist FunctionObject (Finite 0) of
                     Inl e \<Rightarrow> hist
                   | Inr hist' \<Rightarrow> hist')))"

text \<open>The sentinel \<^verbatim>\<open>inf= 65535.\<close> of the source.\<close>

definition inf_py :: real where
  "inf_py = 65535"

text \<open>
  The property "the densities sum to 1 within \<open>10\<^sup>-\<^sup>9\<close>", read on what \<open>hist_calc\<close>
  returns: an exception or a sum that is not a finite number does not have it.
\<close>

definition sums_to_one :: "py_error + float64 list \<Rightarrow> bool" where
  "sums_to_one r =
     (case r of
        Inl e \<Rightarrow> False
      | Inr h \<Rightarrow> (case np_sum h of Finite s \<Rightarrow> \<bar>s - 1\<bar> \<le> 1 / 10 ^ 9 | _ \<Rightarrow> False))"

subsection \<open>The orchestrator's histogram section\<close>



subsection \<open>Range masks and the final summary\<close>

text \<open>
  \<^verbatim>\<open>mask_calc\<close> flags the values outside \<open>[interval[0], interval[1]]\<close>. The summary
  (lines 259 to 267) prints, for the signal-drop indicator, the lower-bin density that
  \<open>hist_calc\<close> returned for the ratio field (line 212) times 100, and for every other
  indicator the sum of its mask over the sum of the input mask, times 100. Fields and masks
  are the flattened arrays.
\<close>

definition mask_calc :: "real list \<Rightarrow> real list \<Rightarrow> py_error + int list" where
  "mask_calc M interval =
     (if length interval < 2 then Inl IndexError
      else Inr (map (\<lambda>v. if v < interval ! 0 \<or> v > interval ! 1 then 1 else 0) M))"

text \<open>Line 207, \<^verbatim>\<open>(minOverGrads < 0) * 1\<close>, on the flattened field.\<close>

definition negative_mask :: "real list \<Rightarrow> int list" where
  "negative_mask minOverGrads = map (\<lambda>r. if r < 0 then 1 else 0) minOverGrads"

record summary =
  pct_signal_drop :: float64
  pct_negative_eigenvalue :: float64
  pct_fa :: float64
  pct_md :: float64
  pct_mk :: "float64 option"

definition percentage :: "int list \<Rightarrow> int \<Rightarrow> float64" where
  "percentage flags N_mask = times_int (true_divide (sum_list flags) N_mask) 100"

definition conclusion ::
  "real list \<Rightarrow> int list \<Rightarrow> int list \<Rightarrow> int list \<Rightarrow> int list option \<Rightarrow> int list
     \<Rightarrow> py_error + summary" where
  "conclusion minOverGrads evals_zero_mask fa_mask md_mask mk_mask mask_data =
     (case hist_calc minOverGrads [- inf_py, 0, inf_py] of
        Inl e \<Rightarrow> Inl e
      | Inr h \<Rightarrow>
         (case h of
            [negative, other] \<Rightarrow>
              (let N_mask = sum_list mask_data in
               Inr \<lparr>pct_signal_drop = times_int negative 100,
                    pct_negative_eigenvalue = percentage evals_zero_mask N_mask,
                    pct_fa = percentage fa_mask N_mask,
                    pct_md = percentage md_mask N_mask,
                    pct_mk = map_option (\<lambda>m. percentage m N_mask) mk_mask\<rparr>)
          | _ \<Rightarrow> Inl ValueError))"

text \<open>
  The share the specification describes: the number of flagged voxels over the number of
  voxels the mask includes, times 100.
\<close>

definition flagged_share :: "int list \<Rightarrow> int list \<Rightarrow> float64" where
  "flagged_share flags mask_data =
     times_int (true_divide (int (length (filter (\<lambda>f. f \<noteq> 0) flags)))
                            (int (length (filter (\<lambda>m. m \<noteq> 0) mask_data)))) 100"

subsection \<open>Header synthesis: the measurement frame\<close>

text \<open>
  \<^verbatim>\<open>matrix_string\<close> prints \<^verbatim>\<open>str(A.tolist())\<close>, deletes the blank after each comma,
  turns \<^verbatim>\<open>],[\<close> into \<^verbatim>\<open>) (\<close> and replaces the two outer brackets on each side by
  one parenthesis. It is modelled on integer matrices, which is what the measurement frame
  is; \<open>replace\<close> is Python's \<^verbatim>\<open>str.replace\<close>. The determinant is the value
  \<^verbatim>\<open>np.linalg.det(hdr.get_qform())\<close> returned; when it is zero (or NaN) neither branch
  binds \<^verbatim>\<open>mf\<close> and the print raises UnboundLocalError.
\<close>

definition digit_char :: "nat \<Rightarrow> char" where
  "digit_char d = ''0123456789'' ! d"

function str_nat :: "nat \<Rightarrow> string" where
  "str_nat n = (if n < 10 then [digit_char n] else str_nat (n div 10) @ [digit_char (n mod 10)])"
  by pat_completeness auto
termination
  by (relation "measure id") auto

definition str_int :: "int \<Rightarrow> string" where
  "str_int i = (if i < 0 then CHR ''-'' # str_nat (nat (- i)) else str_nat (nat i))"

fun join :: "string \<Rightarrow> string list \<Rightarrow> string" where
  "join sep [] = []"
| "join sep [x] = x"
| "join sep (x # y # ys) = x @ sep @ join sep (y # ys)"

definition str_list :: "string list \<Rightarrow> string" where
  "str_list items = ''['' @ join '', '' items @ '']''"

definition tolist_str :: "int list list \<Rightarrow> string" where
  "tolist_str A = str_list (map (\<lambda>row. str_list (map str_int row)) A)"

function replace :: "string \<Rightarrow> string \<Rightarrow> string \<Rightarrow> string" where
  "replace old new s =
     (if old = [] then new @ concat (map (\<lambda>c. c # new) s)
      else if s = [] then []
      else if take (length old) s = old then new @ replace old new (drop (length old) s)
      else hd s # replace old new (tl s))"
  by pat_completeness auto
termination
  by (relation "measure (\<lambda>(old, new, s). length s)") auto

definition matrix_string :: "int list list \<Rightarrow> string" where
  "matrix_string A =
     (let s0 = tolist_str A;
          s1 = replace '', '' '','' s0;
          s2 = replace ''],['' '') ('' s1
      in ''('' @ drop 2 (take (length s2 - 2) s2) @ '')'')"

definition measurement_frame :: "real \<Rightarrow> py_error + int list list" where
  "measurement_frame affine_det =
     (if affine_det < 0 then Inr [[1, 0, 0], [0, 1, 0], [0, 0, 1]]
      else if affine_det > 0 then Inr [[- 1, 0, 0], [0, 1, 0], [0, 0, 1]]
      else Inl UnboundLocalError)"

text \<open>
  The geometry lines of \<^verbatim>\<open>main\<close> (lines 135 to 163): \<open>ndim\<close> is \<^verbatim>\<open>hdr['dim'][0]\<close> and
  \<open>spc_dir\<close> is the text \<^verbatim>\<open>matrix_string(spc_dir)\<close> of the float matrix, whose number
  formatting is not modelled.
\<close>

definition geometry_section :: "int \<Rightarrow> string \<Rightarrow> real \<Rightarrow> py_error + string list" where
  "geometry_section ndim spc_dir affine_det =
     (if ndim = 4 then
        (case measurement_frame affine_det of
           Inl e \<Rightarrow> Inl e
         | Inr mf \<Rightarrow>
             Inr [''space directions: '' @ spc_dir @ '' none'',
                  ''centerings: cell cell cell ???'',
                  ''kinds: space space space list'',
                  ''measurement frame: '' @ matrix_string mf])
      else Inr [''space directions: '' @ spc_dir,
                ''centerings: cell cell cell'',
                ''kinds: space space space''])"

subsection \<open>Header synthesis: gradient scaling\<close>

text \<open>
  \<^verbatim>\<open>bvec_scaling\<close> computes in float64: \<^verbatim>\<open>bval/b_max\<close>, \<^verbatim>\<open>np.sqrt\<close>, \<^verbatim>\<open>norm\<close> and the
  product each round, and the guard \<^verbatim>\<open>norm(bvec)!=factor\<close> compares the rounded values.
  Which vectors pass the guard therefore depends on the rounding, so the four operations
  are parameters of the model: \<open>fl_div a m\<close> is what \<^verbatim>\<open>a/m\<close> returns, \<open>fl_sqrt\<close> what
  \<^verbatim>\<open>np.sqrt\<close> returns on a non-negative number, \<open>fl_norm\<close> what \<^verbatim>\<open>norm\<close> returns and
  \<open>fl_mul\<close> what the product returns. They are functions on the reals that agree with
  the float64 operations on float64 values, which is what b-values and b-vector components
  read by \<^verbatim>\<open>float(num)\<close> are.
\<close>

record float_ops =
  fl_div :: "real \<Rightarrow> real \<Rightarrow> real"
  fl_sqrt :: "real \<Rightarrow> real"
  fl_norm :: "real list \<Rightarrow> real"
  fl_mul :: "real \<Rightarrow> real \<Rightarrow> real"


text \<open>Arithmetic without rounding, as one instance.\<close>

definition norm2 :: "real list \<Rightarrow> real" where
  "norm2 v = sqrt (sum_list (map (\<lambda>x. x * x) v))"

definition exact_ops :: float_ops where
  "exact_ops = \<lparr>fl_div = (/), fl_sqrt = sqrt, fl_norm = norm2, fl_mul = (*)\<rparr>"

text \<open>
  \<^verbatim>\<open>bvec_scaling\<close> up to the numbers it formats: the final \<^verbatim>\<open>str\<close> of each component
  and the join are not modelled. \<^verbatim>\<open>bval/b_max\<close> divides two Python floats and raises
  ZeroDivisionError on a zero divisor; \<^verbatim>\<open>np.sqrt\<close> of a negative number is NaN, which
  differs from every norm and turns every component into NaN. \<open>gradient_lines\<close> is the
  loop of \<^verbatim>\<open>main\<close> over the gradient table, with \<^verbatim>\<open>b_max = max(bvals)\<close>.
\<close>

definition scale_factor :: "float_ops \<Rightarrow> real \<Rightarrow> real \<Rightarrow> real" where
  "scale_factor ops bval b_max = fl_sqrt ops (fl_div ops bval b_max)"

definition bvec_scaling ::
  "float_ops \<Rightarrow> real \<Rightarrow> real list \<Rightarrow> real \<Rightarrow> py_error + float64 list" where
  "bvec_scaling ops bval bvec b_max =
     (if bval \<noteq> 0 then
        (if b_max = 0 then Inl ZeroDivisionError
         else if fl_div ops bval b_max < 0 then Inr (map (\<lambda>x. NaN) bvec)
         else (let factor = scale_factor ops bval b_max in
               if fl_norm ops bvec \<noteq> factor
               then Inr (map (\<lambda>x. Finite (fl_mul ops x factor)) bvec)
               else Inr (map Finite bvec)))
      else Inr (map Finite bvec))"






subsection \<open>Arrays and the signal-drop detector\<close>

text \<open>
  A numpy array is its shape and its element at each index (a list of one position per
  axis); only in-range indices are meaningful. The functions below are the numpy calls of
  lines 190 to 207 of \<^verbatim>\<open>dwi_quality.py\<close>, each for an arbitrary axis, with the
  exceptions numpy raises. Elements are reals: the mean over an empty axis, which numpy
  returns as NaN with a warning, is kept apart as \<open>NanResult\<close>.
\<close>

record 'a ndarray =
  shape :: "nat list"
  item :: "nat list \<Rightarrow> 'a"

text \<open>\<^verbatim>\<open>np.where(bvals==0)[0]\<close> and \<^verbatim>\<open>np.where(bvals!=0)[0]\<close>.\<close>

definition where_eq0 :: "real list \<Rightarrow> nat list" where
  "where_eq0 bvals = filter (\<lambda>i. bvals ! i = 0) [0..<length bvals]"

definition where_ne0 :: "real list \<Rightarrow> nat list" where
  "where_ne0 bvals = filter (\<lambda>i. bvals ! i \<noteq> 0) [0..<length bvals]"

text \<open>\<^verbatim>\<open>a[..., idx]\<close> with an index array, and \<^verbatim>\<open>a.mean(-1)\<close>.\<close>

definition getitem_last :: "'a ndarray \<Rightarrow> nat list \<Rightarrow> py_error + 'a ndarray" where
  "getitem_last a idx =
     (if shape a = [] then Inl IndexError
      else if list_ex (\<lambda>j. last (shape a) \<le> j) idx then Inl IndexError
      else Inr \<lparr>shape = butlast (shape a) @ [length idx],
                item = (\<lambda>i. item a (butlast i @ [idx ! last i]))\<rparr>)"

definition mean_last :: "real ndarray \<Rightarrow> py_error + real ndarray" where
  "mean_last a =
     (if shape a = [] then Inl AxisError
      else if last (shape a) = 0 then Inl NanResult
      else Inr \<lparr>shape = butlast (shape a),
                item = (\<lambda>i. np_mean (map (\<lambda>j. item a (i @ [j])) [0..<last (shape a)]))\<rparr>)"

text \<open>\<^verbatim>\<open>bse_data[bse_data < 1] = 1.\<close>\<close>

definition clamp_below_one :: "real ndarray \<Rightarrow> real ndarray" where
  "clamp_below_one a = a\<lparr>item := (\<lambda>i. if item a i < 1 then 1 else item a i)\<rparr>"

text \<open>
  \<^verbatim>\<open>np.expand_dims(a, k)\<close>, \<^verbatim>\<open>np.repeat(a, n, k)\<close> and \<^verbatim>\<open>np.take(a, idx, axis=k)\<close>.
\<close>

definition expand_dims :: "'a ndarray \<Rightarrow> nat \<Rightarrow> py_error + 'a ndarray" where
  "expand_dims a k =
     (if length (shape a) < k then Inl AxisError
      else Inr \<lparr>shape = take k (shape a) @ [1] @ drop k (shape a),
                item = (\<lambda>i. item a (take k i @ drop (Suc k) i))\<rparr>)"

definition np_repeat :: "'a ndarray \<Rightarrow> nat \<Rightarrow> nat \<Rightarrow> py_error + 'a ndarray" where
  "np_repeat a n k =
     (if length (shape a) \<le> k then Inl AxisError
      else Inr \<lparr>shape = (shape a)[k := shape a ! k * n],
                item = (\<lambda>i. item a (i[k := (i ! k) div n]))\<rparr>)"

definition np_take :: "'a ndarray \<Rightarrow> nat list \<Rightarrow> nat \<Rightarrow> py_error + 'a ndarray" where
  "np_take a idx k =
     (if length (shape a) \<le> k then Inl AxisError
      else if list_ex (\<lambda>j. shape a ! k \<le> j) idx then Inl IndexError
      else Inr \<lparr>shape = take k (shape a) @ [length idx] @ drop (Suc k) (shape a),
                item = (\<lambda>i. item a (i[k := idx ! (i ! k)]))\<rparr>)"

text \<open>
  Elementwise binary operations broadcast their operands: shapes are aligned at the last
  axis, two lengths are compatible when they are equal or one of them is 1, and anything
  else raises ValueError. An axis of length 1 is read at position 0.
\<close>

fun broadcast_rev :: "nat list \<Rightarrow> nat list \<Rightarrow> py_error + nat list" where
  "broadcast_rev [] ys = Inr ys"
| "broadcast_rev (x # xs) [] = Inr (x # xs)"
| "broadcast_rev (x # xs) (y # ys) =
     (if x = y \<or> x = 1 \<or> y = 1 then
        (case broadcast_rev xs ys of
           Inl e \<Rightarrow> Inl e
         | Inr zs \<Rightarrow> Inr ((if x = 1 then y else x) # zs))
      else Inl ValueError)"

definition broadcast_shapes :: "nat list \<Rightarrow> nat list \<Rightarrow> py_error + nat list" where
  "broadcast_shapes s t =
     (case broadcast_rev (rev s) (rev t) of Inl e \<Rightarrow> Inl e | Inr zs \<Rightarrow> Inr (rev zs))"

definition bindex :: "nat list \<Rightarrow> nat list \<Rightarrow> nat list" where
  "bindex s i = map2 (\<lambda>d x. if d = 1 then 0 else x) s (drop (length i - length s) i)"

definition np_binary ::
  "('a \<Rightarrow> 'b \<Rightarrow> 'c) \<Rightarrow> 'a ndarray \<Rightarrow> 'b ndarray \<Rightarrow> py_error + 'c ndarray" where
  "np_binary f a b =
     (case broadcast_shapes (shape a) (shape b) of
        Inl e \<Rightarrow> Inl e
      | Inr sh \<Rightarrow>
          Inr \<lparr>shape = sh,
               item = (\<lambda>i. f (item a (bindex (shape a) i)) (item b (bindex (shape b) i)))\<rparr>)"

text \<open>
  \<^verbatim>\<open>np.min(a, axis=k)\<close>; it raises ValueError on an axis of length 0. \<^verbatim>\<open>(a < 0) * 1\<close>
  is \<open>less_zero\<close>. \<^verbatim>\<open>np.moveaxis(a, src, dst)\<close> takes axis \<open>src\<close> out and puts it
  back at position \<open>dst\<close>.
\<close>

definition np_min :: "real ndarray \<Rightarrow> nat \<Rightarrow> py_error + real ndarray" where
  "np_min a k =
     (if length (shape a) \<le> k then Inl AxisError
      else if shape a ! k = 0 then Inl ValueError
      else Inr \<lparr>shape = take k (shape a) @ drop (Suc k) (shape a),
                item = (\<lambda>i. min_list (map (\<lambda>j. item a (take k i @ [j] @ drop k i))
                                        [0..<shape a ! k]))\<rparr>)"

definition less_zero :: "real ndarray \<Rightarrow> int ndarray" where
  "less_zero a = \<lparr>shape = shape a, item = (\<lambda>i. if item a i < 0 then 1 else 0)\<rparr>"

definition moveaxis :: "'a ndarray \<Rightarrow> nat \<Rightarrow> nat \<Rightarrow> py_error + 'a ndarray" where
  "moveaxis a src dst =
     (if length (shape a) \<le> src \<or> length (shape a) \<le> dst then Inl AxisError
      else
        (let rest = take src (shape a) @ drop (Suc src) (shape a)
         in Inr \<lparr>shape = take dst rest @ [shape a ! src] @ drop dst rest,
                 item = (\<lambda>i. let others = take dst i @ drop (Suc dst) i
                              in item a (take src others @ [i ! dst] @ drop src others))\<rparr>))"

text \<open>
  Lines 190 to 207: the baseline, the ratio field and the negative mask, from the data, the
  b-values and the variable \<^verbatim>\<open>grad_axis\<close> as \<^verbatim>\<open>main\<close> holds it at that point. The
  divisor of the last division is the clamped baseline, which is at least 1.
\<close>

record signal_drop_result =
  bse_data :: "real ndarray"
  minOverGrads :: "real ndarray"
  minOverGradsNegativeMask :: "int ndarray"

definition signal_drop :: "real ndarray \<Rightarrow> real list \<Rightarrow> nat \<Rightarrow> py_error + signal_drop_result" where
  "signal_drop data bvals grad_axis =
     (let where_b0s = where_eq0 bvals; where_dwi = where_ne0 bvals in
      case getitem_last data where_b0s of Inl e \<Rightarrow> Inl e | Inr b0s \<Rightarrow>
      case mean_last b0s of Inl e \<Rightarrow> Inl e | Inr mean_b0 \<Rightarrow>
      (let bse = clamp_below_one mean_b0 in
       case expand_dims bse grad_axis of Inl e \<Rightarrow> Inl e | Inr expanded \<Rightarrow>
       case np_repeat expanded (length where_dwi) grad_axis of Inl e \<Rightarrow> Inl e | Inr extend_bse \<Rightarrow>
       case np_take data where_dwi grad_axis of Inl e \<Rightarrow> Inl e | Inr curtail_dwi \<Rightarrow>
       case np_binary (-) extend_bse curtail_dwi of Inl e \<Rightarrow> Inl e | Inr diff \<Rightarrow>
       case np_min diff grad_axis of Inl e \<Rightarrow> Inl e | Inr min_diff \<Rightarrow>
       case np_binary (/) min_diff bse of Inl e \<Rightarrow> Inl e | Inr ratio \<Rightarrow>
         Inr \<lparr>bse_data = bse, minOverGrads = ratio,
              minOverGradsNegativeMask = less_zero ratio\<rparr>))"

subsection \<open>Loading the volume\<close>

text \<open>
  dipy's \<^verbatim>\<open>applymask(vol, mask)\<close> gives the mask one trailing axis of length 1 per axis
  the volume has more, and multiplies.
\<close>

definition applymask :: "real ndarray \<Rightarrow> int ndarray \<Rightarrow> py_error + real ndarray" where
  "applymask vol msk =
     (let extra = length (shape vol) - length (shape msk);
          reshaped = \<lparr>shape = shape msk @ replicate extra 1,
                      item = (\<lambda>i. item msk (take (length (shape msk)) i))\<rparr>
      in np_binary (\<lambda>v m. v * real_of_int m) vol reshaped)"

text \<open>
  Lines 136 to 161 of \<^verbatim>\<open>main\<close>. The format is read off the file extension. On the NIfTI
  branch the data must be 4-D and the gradient axis is 3. On the NRRD branch the gradient
  axis comes from \<^verbatim>\<open>nrrd_bvals_bvecs(hdr)\<close>, whose source is not part of this
  development: its outcome (the exception it raises or the axis it returns) is a
  parameter. The data are moved so that the gradients are along the last axis;
  \<^verbatim>\<open>grad_axis\<close> keeps the value the header gave. With any other extension no branch
  binds \<^verbatim>\<open>data\<close> and its first use raises.
\<close>

datatype image_format = NIfTI | NRRD | Unrecognised

definition load_volume ::
  "image_format \<Rightarrow> 'a ndarray \<Rightarrow> py_error + nat \<Rightarrow> py_error + ('a ndarray \<times> nat)" where
  "load_volume fmt data header_grad_axis =
     (case fmt of
        NIfTI \<Rightarrow> if length (shape data) \<noteq> 4 then Inl AttributeError else Inr (data, 3)
      | NRRD \<Rightarrow>
          (case header_grad_axis of
             Inl e \<Rightarrow> Inl e
           | Inr grad_axis \<Rightarrow>
               if grad_axis \<noteq> 3 then
                 (case moveaxis data grad_axis 3 of
                    Inl e \<Rightarrow> Inl e
                  | Inr moved \<Rightarrow> Inr (moved, grad_axis))
               else Inr (data, grad_axis))
      | Unrecognised \<Rightarrow> Inl UnboundLocalError)"

text \<open>Line 163: the loaded data are masked; \<^verbatim>\<open>grad_axis\<close> is carried along.\<close>

definition masked_volume ::
  "image_format \<Rightarrow> real ndarray \<Rightarrow> int ndarray \<Rightarrow> py_error + nat
     \<Rightarrow> py_error + (real ndarray \<times> nat)" where
  "masked_volume fmt raw mask_data header_grad_axis =
     (case load_volume fmt raw header_grad_axis of
        Inl e \<Rightarrow> Inl e
      | Inr (oriented, grad_axis) \<Rightarrow>
          (case applymask oriented mask_data of
             Inl e \<Rightarrow> Inl e
           | Inr data \<Rightarrow> Inr (data, grad_axis)))"

text \<open>
  What \<^verbatim>\<open>dtimodel.fit\<close> is called with (line 168): \<open>Inr\<close> of the shape of the data
  means the fit is attempted, \<open>Inl\<close> that \<^verbatim>\<open>main\<close> raised before.
  \<^verbatim>\<open>gradient_table\<close> and \<^verbatim>\<open>TensorModel\<close> do not look at the data and are taken to
  return.
\<close>

definition tensor_fit_input ::
  "image_format \<Rightarrow> real ndarray \<Rightarrow> int ndarray \<Rightarrow> py_error + nat \<Rightarrow> py_error + nat list" where
  "tensor_fit_input fmt raw mask_data header_grad_axis =
     (case masked_volume fmt raw mask_data header_grad_axis of
        Inl e \<Rightarrow> Inl e
      | Inr (data, grad_axis) \<Rightarrow> Inr (shape data))"

text \<open>The path of \<^verbatim>\<open>main\<close> from the loaded volume to the signal-drop fields.\<close>

definition quality_signal_drop ::
  "image_format \<Rightarrow> real ndarray \<Rightarrow> int ndarray \<Rightarrow> py_error + nat \<Rightarrow> real list
     \<Rightarrow> py_error + signal_drop_result" where
  "quality_signal_drop fmt raw mask_data header_grad_axis bvals =
     (case masked_volume fmt raw mask_data header_grad_axis of
        Inl e \<Rightarrow> Inl e
      | Inr (data, grad_axis) \<Rightarrow> signal_drop data bvals grad_axis)"

text \<open>
  Test volumes: a mask that includes every voxel, and volumes with signal 100 at gradient
  index 0 (the b0) and 50 at every other, with the gradient axis first or last.
\<close>

definition full_mask :: "nat list \<Rightarrow> int ndarray" where
  "full_mask sh = \<lparr>shape = sh, item = (\<lambda>i. 1)\<rparr>"

definition gradient_first_volume :: "nat list \<Rightarrow> real ndarray" where
  "gradient_first_volume sh = \<lparr>shape = sh, item = (\<lambda>i. if i ! 0 = 0 then 100 else 50)\<rparr>"

definition gradient_last_volume :: "nat list \<Rightarrow> real ndarray" where
  "gradient_last_volume sh = \<lparr>shape = sh, item = (\<lambda>i. if i ! 3 = 0 then 100 else 50)\<rparr>"

definition constant_volume :: "nat list \<Rightarrow> real ndarray" where
  "constant_volume sh = \<lparr>shape = sh, item = (\<lambda>i. 100)\<rparr>"

text \<open>
  A volume of two voxels along the first axis, with the b0 frame and one diffusion frame:
  signals 100 and 150 in the first voxel, 80 and 60 in the second; and the mask that
  includes the first voxel only.
\<close>

definition two_voxel_volume :: "real ndarray" where
  "two_voxel_volume =
     \<lparr>shape = [2, 1, 1, 2],
      item = (\<lambda>i. if i ! 0 = 0 then (if i ! 3 = 0 then 100 else 150)
                  else (if i ! 3 = 0 then 80 else 60))\<rparr>"

definition first_voxel_mask :: "int ndarray" where
  "first_voxel_mask = \<lparr>shape = [2, 1, 1], item = (\<lambda>i. if i ! 0 = 0 then 1 else 0)\<rparr>"

text \<open>The elements of an array in row-major order, as \<^verbatim>\<open>np.histogram\<close> and \<^verbatim>\<open>sum\<close> see them.\<close>

fun indices :: "nat list \<Rightarrow> nat list list" where
  "indices [] = [[]]"
| "indices (n # ns) = concat (map (\<lambda>i. map ((#) i) (indices ns)) [0..<n])"

definition ravel :: "'a ndarray \<Rightarrow> 'a list" where
  "ravel a = map (item a) (indices (shape a))"

definition ratio_at :: "py_error + signal_drop_result \<Rightarrow> nat list \<Rightarrow> py_error + real" where
  "ratio_at res i = (case res of Inl e \<Rightarrow> Inl e | Inr r \<Rightarrow> Inr (item (minOverGrads r) i))"

section \<open>Properties\<close>

subsection \<open>The bin-edge synthesizer\<close>

lemma form_bins_pair:
  "form_bins [low, high] =
     (if low * high < 0
      then Inr (straddle_edges low high, straddle_edges low high)
      else Inr (sort [low, (low + high) / 2, high], [low, high]))"
  unfolding form_bins_def np_mean_def straddle_edges_def Let_def
  by (auto simp del: sort_key_simps insort_key.simps)

lemma straddle_edges_distinct:
  assumes "low * high < 0"
  shows "distinct (straddle_edges low high)"
proof -
  from assms have "(low < 0 \<and> 0 < high) \<or> (0 < low \<and> high < 0)"
    by (auto simp: mult_less_0_iff)
  then have "distinct ([low, high, 0] @ (if 1 < max low high then [1] else [])
            @ (if min low high < - 1 then [- 1] else []))"
    by auto
  then show ?thesis
    unfolding straddle_edges_def by (simp only: distinct_sort)
qed

lemma straddle_edges_length:
  "3 \<le> length (straddle_edges low high) \<and> length (straddle_edges low high) \<le> 5"
  unfolding straddle_edges_def by (simp only: length_sort) simp

text \<open>
  Claim C6. For an interval \<open>[low, high]\<close> with \<open>low * high < 0\<close>, \<open>form_bins\<close> returns the
  sorted list of \<open>low\<close>, \<open>high\<close> and \<open>0\<close>, with \<open>1\<close> added when \<open>max low high > 1\<close> and \<open>-1\<close>
  added when \<open>min low high < -1\<close>; the result has no duplicates and three to five edges.
  Otherwise it returns \<open>[low, mean, high]\<close> sorted. In particular \<open>[-1, 2]\<close> gives the
  ascending edges \<open>-1, 0, 1, 2\<close> and \<open>[0, 1]\<close> gives \<open>[0, 0.5, 1]\<close>.
\<close>

theorem form_bins_edges:
  fixes low high :: real
  shows "(low * high < 0 \<longrightarrow>
            map_sum id fst (form_bins [low, high]) =
              Inr (sort ([low, high, 0] @ (if 1 < max low high then [1] else [])
                          @ (if min low high < - 1 then [- 1] else [])))
            \<and> distinct (straddle_edges low high)
            \<and> 3 \<le> length (straddle_edges low high)
            \<and> length (straddle_edges low high) \<le> 5)
       \<and> (\<not> low * high < 0 \<longrightarrow>
            map_sum id fst (form_bins [low, high]) = Inr (sort [low, (low + high) / 2, high]))
       \<and> (\<exists>r. map_sum id fst (form_bins [low, high]) = Inr r \<and> sorted r)
       \<and> map_sum id fst (form_bins [- 1, 2]) = Inr [- 1, 0, 1, 2]
       \<and> map_sum id fst (form_bins [0, 1]) = Inr [0, 1 / 2, 1]"
proof -
  have a: "low * high < 0 \<Longrightarrow> map_sum id fst (form_bins [low, high]) =
              Inr (sort ([low, high, 0] @ (if 1 < max low high then [1] else [])
                          @ (if min low high < - 1 then [- 1] else [])))"
    by (simp only: form_bins_pair straddle_edges_def if_True map_sum.simps fst_conv id_apply)
  have b: "\<not> low * high < 0 \<Longrightarrow>
      map_sum id fst (form_bins [low, high]) = Inr (sort [low, (low + high) / 2, high])"
    by (simp only: form_bins_pair if_False map_sum.simps fst_conv id_apply)
  have c: "\<exists>r. map_sum id fst (form_bins [low, high]) = Inr r \<and> sorted r"
    unfolding form_bins_pair straddle_edges_def
    by (cases "low * high < 0") (simp_all only: if_True if_False map_sum.simps fst_conv
        id_apply sum.inject simp_thms ex_simps sorted_sort)
  have d: "map_sum id fst (form_bins [- 1, 2]) = Inr [- 1, 0, 1, 2]"
    by (simp add: form_bins_pair straddle_edges_def)
  have e: "map_sum id fst (form_bins [0, 1]) = Inr [0, 1 / 2, 1]"
    by (simp add: form_bins_pair)
  show ?thesis
    using a b c d e straddle_edges_distinct straddle_edges_length by blast
qed

theorem form_bins_edges_witness:
  "(- 2) * (3::real) < 0
   \<and> map_sum id fst (form_bins [- 2, 3]) = Inr [- 2, - 1, 0, 1, 3]
   \<and> \<not> (1::real) * 3 < 0
   \<and> map_sum id fst (form_bins [1, 3]) = Inr [1, 2, 3]"
  using form_bins_edges [of "- 2" 3] form_bins_edges [of 1 3] by simp

subsection \<open>The histogram reporter\<close>

lemma sum_bin_counts:
  "sorted es \<Longrightarrow> 2 \<le> length es \<Longrightarrow>
   sum_list (bin_counts a es) = int (length (filter (\<lambda>x. hd es \<le> x \<and> x \<le> last es) a))"
proof (induction a es rule: bin_counts.induct)
  case (1 a e0 e1)
  then show ?case by simp
next
  case (2 a e0 e1 v va)
  have le: "e0 \<le> e1" "e1 \<le> last (v # va)" using 2(2) by auto
  have "sum_list (bin_counts a (e1 # v # va)) =
        int (length (filter (\<lambda>x. e1 \<le> x \<and> x \<le> last (v # va)) a))"
    using 2 by simp
  moreover have "length (filter (\<lambda>x. e0 \<le> x \<and> x < e1) a) + length (filter (\<lambda>x. e1 \<le> x \<and> x \<le> last (v # va)) a)
      = length (filter (\<lambda>x. e0 \<le> x \<and> x \<le> last (v # va)) a)"
    using le by (induction a) auto
  ultimately show ?case by simp
qed simp_all

lemma hist_calc_sorted:
  "sorted bins \<Longrightarrow>
   hist_calc a bins = Inr (map (\<lambda>c. true_divide c (sum_list (bin_counts a bins))) (bin_counts a bins))"
  by (simp add: hist_calc_def np_histogram_def)

lemma np_sum_Finite_aux:
  "foldl fadd (Finite s) (map Finite ds) = Finite (s + sum_list ds)"
  by (induction ds arbitrary: s) (simp_all add: add.assoc)

lemma np_sum_Finite: "np_sum (map Finite ds) = Finite (sum_list ds)"
  by (simp add: np_sum_def np_sum_Finite_aux)

lemma sum_list_ratio:
  "sum_list (map (\<lambda>c. real_of_int c / t) cs) = real_of_int (sum_list cs) / t"
  by (induction cs) (simp_all add: add_divide_distrib)

lemma length_bin_counts: "length (bin_counts a es) = length es - 1"
  by (induction a es rule: bin_counts.induct) simp_all

lemma densities_sum:
  assumes "sorted bins" "2 \<le> length bins" "\<exists>x\<in>set a. hd bins \<le> x \<and> x \<le> last bins"
  shows "\<exists>ds. hist_calc a bins = Inr (map Finite ds) \<and> sum_list ds = 1
     \<and> length ds = length bins - 1"
proof -
  let ?cs = "bin_counts a bins"
  let ?t = "sum_list ?cs"
  have t: "?t = int (length (filter (\<lambda>x. hd bins \<le> x \<and> x \<le> last bins) a))"
    using assms sum_bin_counts by blast
  from assms(3) have "filter (\<lambda>x. hd bins \<le> x \<and> x \<le> last bins) a \<noteq> []"
    by (simp add: filter_empty_conv)
  then have pos: "?t > 0" using t by simp
  let ?ds = "map (\<lambda>c. real_of_int c / real_of_int ?t) ?cs"
  have h: "hist_calc a bins = Inr (map Finite ?ds)"
    using pos by (simp add: hist_calc_sorted[OF assms(1)])
  have "sum_list ?ds = real_of_int ?t / real_of_int ?t"
    by (rule sum_list_ratio)
  then have s: "sum_list ?ds = 1" using pos by simp
  have l: "length ?ds = length bins - 1" by (simp add: length_bin_counts)
  from h s l show ?thesis by blast
qed

text \<open>
  Claim C5, as amended. For every field with at least one element inside the closed range
  from the first edge to the last, and every sorted edge list with at least two edges, the
  densities \<open>hist_calc\<close> returns are finite and sum to 1. (The claim as stated asks this of
  every non-empty field; elements outside the edge range are counted in no bin, so a
  field with no element in range has a zero total.)
\<close>

theorem hist_calc_sums_to_one:
  assumes "sorted bins" and "2 \<le> length bins"
    and "\<exists>x\<in>set a. hd bins \<le> x \<and> x \<le> last bins"
  shows "sums_to_one (hist_calc a bins) \<and> (\<exists>h. hist_calc a bins = Inr h \<and> np_sum h = Finite 1)"
proof -
  from densities_sum[OF assms] obtain ds where
    d: "hist_calc a bins = Inr (map Finite ds)" "sum_list ds = 1" by blast
  then show ?thesis by (simp add: sums_to_one_def np_sum_Finite)
qed

theorem hist_calc_sums_to_one_witness:
  "sorted [0, 1 / 2, 1 :: real] \<and> 2 \<le> length [0, 1 / 2, 1 :: real]
   \<and> (1 / 4 :: real) \<in> set [1 / 4, 3 / 4, 2]
   \<and> hd [0, 1 / 2, 1 :: real] \<le> 1 / 4 \<and> 1 / 4 \<le> last [0, 1 / 2, 1 :: real]
   \<and> sums_to_one (hist_calc [1 / 4, 3 / 4, 2] [0, 1 / 2, 1])
   \<and> hist_calc [1 / 4, 3 / 4, 2] [0, 1 / 2, 1] = Inr [Finite (1 / 2), Finite (1 / 2)]"
proof -
  have s: "sorted [0, 1 / 2, 1 :: real]" and l: "2 \<le> length [0, 1 / 2, 1 :: real]"
    and e: "\<exists>x\<in>set [1 / 4, 3 / 4, 2 :: real]. hd [0, 1 / 2, 1 :: real] \<le> x \<and> x \<le> last [0, 1 / 2, 1 :: real]"
    by simp_all
  have v: "hist_calc [1 / 4, 3 / 4, 2] [0, 1 / 2, 1] = Inr [Finite (1 / 2), Finite (1 / 2)]"
    by (simp add: hist_calc_def np_histogram_def)
  show ?thesis using hist_calc_sums_to_one [OF s l e] v by simp
qed

text \<open>
  Against claim C5 as stated: the one-element field \<open>[70000]\<close> with the sentinel edges
  \<open>[-65535, 0, 65535]\<close> is non-empty and the edges are sorted, yet both densities are NaN.
\<close>

theorem hist_calc_sum_counterexample:
  "[70000 :: real] \<noteq> [] \<and> sorted [- inf_py, 0, inf_py] \<and> 2 \<le> length [- inf_py, 0, inf_py]
   \<and> hist_calc [70000] [- inf_py, 0, inf_py] = Inr [NaN, NaN]
   \<and> \<not> sums_to_one (hist_calc [70000] [- inf_py, 0, inf_py])"
  by (simp add: hist_calc_def np_histogram_def inf_py_def sums_to_one_def np_sum_def)

text \<open>
  Claim C3 at a failing input. A mean-diffusivity field \<open>[0.0007]\<close> reported over the edges
  \<open>[0.5, 0.75, 1]\<close> has no element in range: the total count is zero, every density is
  \<open>0 / 0\<close>, and \<open>hist_calc\<close> returns the NaNs, because the assignment meant to zero them
  raises and the exception is discarded.
\<close>

theorem hist_calc_nan_not_replaced:
  "hist_calc [7 / 10000] [1 / 2, 3 / 4, 1] = Inr [NaN, NaN]"
  by (simp add: hist_calc_def np_histogram_def)

lemma hist_calc_no_count_all_nan:
  assumes "sorted bins" and "sum_list (bin_counts a bins) = 0"
  shows "hist_calc a bins = Inr (replicate (length bins - 1) NaN)"
proof -
  have nn: "\<forall>c\<in>set (bin_counts a bins). 0 \<le> c"
    by (induction a bins rule: bin_counts.induct) simp_all
  have z: "\<forall>c\<in>set (bin_counts a bins). c = 0"
    using assms(2) nn by (simp add: sum_list_nonneg_eq_0_iff)
  have g: "(\<forall>c\<in>set cs. c = 0) \<Longrightarrow>
      map (\<lambda>c. true_divide c 0) cs = replicate (length cs) NaN" for cs :: "int list"
    by (induction cs) simp_all
  have "map (\<lambda>c. true_divide c 0) (bin_counts a bins) = replicate (length (bin_counts a bins)) NaN"
    using z by (rule g)
  then show ?thesis using assms by (simp add: hist_calc_sorted length_bin_counts)
qed

text \<open>
  Claim C4, as amended. For every non-empty field of zeros, \<open>hist_calc\<close> with the edges
  \<open>[-inf, 0, inf]\<close> returns density 0 in the lower bin and density 1 in the upper bin: the
  lower bin is \<open>[-inf, 0)\<close>, and zero belongs to the upper bin \<open>[0, inf]\<close>.
\<close>

theorem hist_calc_all_zero:
  assumes "a \<noteq> []" and "\<forall>x\<in>set a. x = 0"
  shows "hist_calc a [- inf_py, 0, inf_py] = Inr [Finite 0, Finite 1]"
proof -
  have f1: "filter (\<lambda>x. - inf_py \<le> x \<and> x < 0) a = []"
    using assms(2) by (auto simp: filter_empty_conv)
  have f2: "filter (\<lambda>x. 0 \<le> x \<and> x \<le> inf_py) a = a"
    using assms(2) by (auto simp: filter_id_conv inf_py_def)
  have "length a > 0" using assms(1) by simp
  then show ?thesis
    by (simp add: hist_calc_def np_histogram_def f1 f2) (simp add: inf_py_def)
qed

theorem hist_calc_all_zero_witness:
  "[0, 0, 0 :: real] \<noteq> [] \<and> hist_calc [0, 0, 0] [- inf_py, 0, inf_py] = Inr [Finite 0, Finite 1]"
  using hist_calc_all_zero [of "[0, 0, 0]"] by simp

text \<open>
  Against claim C4 as stated: for the field \<open>[0]\<close> the result is not density 1 in the lower
  bin and 0 in the upper.
\<close>

theorem hist_calc_all_zero_counterexample:
  "[0 :: real] \<noteq> [] \<and> hist_calc [0] [- inf_py, 0, inf_py] \<noteq> Inr [Finite 1, Finite 0]"
  by (simp add: hist_calc_def np_histogram_def inf_py_def)

subsection \<open>The configured intervals after the histograms\<close>







lemma form_bins_leaves_one_sided_interval:
  "\<not> low * high < 0 \<Longrightarrow> map_sum id snd (form_bins [low, high]) = Inr [low, high]"
  by (simp only: form_bins_pair if_False map_sum.simps snd_conv id_apply)

subsection \<open>The summary\<close>

lemma sum_list_binary:
  "\<forall>f\<in>set fs. f = 0 \<or> f = (1::int) \<Longrightarrow> sum_list fs = int (length (filter (\<lambda>f. f \<noteq> 0) fs))"
  by (induction fs) auto

lemma percentage_is_share:
  assumes "\<forall>f\<in>set flags. f = 0 \<or> f = 1" and "\<forall>m\<in>set mask_data. m = 0 \<or> m = 1"
  shows "percentage flags (sum_list mask_data) = flagged_share flags mask_data"
  by (simp only: percentage_def flagged_share_def sum_list_binary[OF assms(1)] sum_list_binary[OF assms(2)])

lemma conclusion_fitted_indicators:
  assumes "\<forall>m\<in>set mask_data. m = 0 \<or> m = 1"
    and "\<forall>f\<in>set ez. f = 0 \<or> f = 1" and "\<forall>f\<in>set fam. f = 0 \<or> f = 1"
    and "\<forall>f\<in>set mdm. f = 0 \<or> f = 1" and "\<forall>f\<in>set mkm. f = 0 \<or> f = 1"
  shows "\<exists>s. conclusion field ez fam mdm (Some mkm) mask_data = Inr s
     \<and> pct_negative_eigenvalue s = flagged_share ez mask_data
     \<and> pct_fa s = flagged_share fam mask_data
     \<and> pct_md s = flagged_share mdm mask_data
     \<and> pct_mk s = Some (flagged_share mkm mask_data)"
proof -
  have "sorted [- inf_py, 0, inf_py]" by (simp add: inf_py_def)
  then have "hist_calc field [- inf_py, 0, inf_py] =
     Inr (map (\<lambda>c. true_divide c (sum_list (bin_counts field [- inf_py, 0, inf_py])))
            (bin_counts field [- inf_py, 0, inf_py]))"
    by (simp add: hist_calc_def np_histogram_def)
  then obtain n p where "hist_calc field [- inf_py, 0, inf_py] = Inr [n, p]" by simp
  then show ?thesis
    by (simp add: conclusion_def Let_def percentage_is_share assms)
qed

text \<open>
  Claim C2 at a failing input. Two voxels, the mask includes the first only. The ratio field
  is \<open>(100 - 150) / 100 = -0.5\<close> in the first voxel and \<open>1\<close> in the masked-out one (signal
  zeroed, baseline clamped to 1), so the negative mask is \<open>[1, 0]\<close>. One voxel is flagged
  and one voxel is in the mask: the flagged share of the mask is 100 percent. The summary
  prints the histogram's lower-bin density times 100, which is 50.
\<close>

theorem summary_signal_drop_denominator:
  "map_sum id (\<lambda>r. (ravel (minOverGrads r), ravel (minOverGradsNegativeMask r)))
      (quality_signal_drop NIfTI two_voxel_volume first_voxel_mask (Inr 3) [0, 1000])
     = Inr ([- 1 / 2, 1], [1, 0])
   \<and> ravel first_voxel_mask = [1, 0]
   \<and> map_sum id pct_signal_drop (conclusion [- 1 / 2, 1] [0, 0] [0, 0] [0, 0] None [1, 0])
     = Inr (Finite 50)
   \<and> flagged_share [1, 0] [1, 0] = Finite 100"
  by code_simp

lemma mask_calc_binary:
  "mask_calc M interval = Inr flags \<Longrightarrow> \<forall>f\<in>set flags. f = 0 \<or> f = 1"
  by (auto simp: mask_calc_def split: if_splits)

subsection \<open>The measurement frame\<close>

lemma matrix_string_reflection: "matrix_string [[- 1, 0, 0], [0, 1, 0], [0, 0, 1]] = ''(-1,0,0) (0,1,0) (0,0,1)''"
  by code_simp
lemma matrix_string_identity: "matrix_string [[1, 0, 0], [0, 1, 0], [0, 0, 1]] = ''(1,0,0) (0,1,0) (0,0,1)''"
  by code_simp

text \<open>
  Claim C7. In the header of a 4-D input, a strictly positive determinant of the source
  transform gives the measurement frame \<open>[[-1,0,0],[0,1,0],[0,0,1]]\<close>, printed as
  \<^verbatim>\<open>(-1,0,0) (0,1,0) (0,0,1)\<close>, and a strictly negative one gives the identity.
\<close>

theorem measurement_frame_sign:
  "(0 < affine_det \<longrightarrow>
      measurement_frame affine_det = Inr [[- 1, 0, 0], [0, 1, 0], [0, 0, 1]]
      \<and> map_sum id last (geometry_section 4 spc_dir affine_det)
          = Inr ''measurement frame: (-1,0,0) (0,1,0) (0,0,1)'')
   \<and> (affine_det < 0 \<longrightarrow>
      measurement_frame affine_det = Inr [[1, 0, 0], [0, 1, 0], [0, 0, 1]]
      \<and> map_sum id last (geometry_section 4 spc_dir affine_det)
          = Inr ''measurement frame: (1,0,0) (0,1,0) (0,0,1)'')"
  by (simp add: measurement_frame_def geometry_section_def matrix_string_reflection
      matrix_string_identity)

theorem measurement_frame_sign_witness:
  "(0::real) < 2 \<and> measurement_frame 2 = Inr [[- 1, 0, 0], [0, 1, 0], [0, 0, 1]]
   \<and> (- 3 :: real) < 0 \<and> measurement_frame (- 3) = Inr [[1, 0, 0], [0, 1, 0], [0, 0, 1]]"
  using measurement_frame_sign [of 2] measurement_frame_sign [of "- 3"] by simp

lemma measurement_frame_zero_determinant:
  "measurement_frame 0 = Inl UnboundLocalError"
  by (simp add: measurement_frame_def)

subsection \<open>Gradient scaling\<close>

lemma sqrt_quarter: "sqrt (1 / 4) = 1 / 2"
  by (simp add: real_sqrt_divide)









text \<open>
  Outside the gradient table of the specification the guard is visible: a b-vector that is
  already weighted, such as \<open>[0.5, 0, 0]\<close> at \<open>b = 250\<close> and \<open>b_max = 1000\<close>, is emitted as
  it is.
\<close>

lemma bvec_scaling_weighted_vector:
  "bvec_scaling exact_ops 250 [1 / 2, 0, 0] 1000 = Inr [Finite (1 / 2), Finite 0, Finite 0]"
  by (simp add: bvec_scaling_def exact_ops_def norm2_def scale_factor_def sqrt_quarter)



subsection \<open>The signal-drop detector\<close>

lemma broadcast_rev_same: "broadcast_rev xs xs = Inr xs"
  by (induction xs) simp_all

lemma broadcast_shapes_same: "broadcast_shapes s s = Inr s"
  by (simp add: broadcast_shapes_def broadcast_rev_same)

lemma where_eq0_bound: "j \<in> set (where_eq0 bvals) \<Longrightarrow> j < length bvals"
  by (simp add: where_eq0_def)

lemma where_ne0_bound: "j \<in> set (where_ne0 bvals) \<Longrightarrow> j < length bvals"
  by (simp add: where_ne0_def)

lemma map_via_nth: "map (\<lambda>j. f (xs ! j)) [0..<length xs] = map f xs"
proof -
  have "map (\<lambda>j. f (xs ! j)) [0..<length xs] = map f (map (\<lambda>j. xs ! j) [0..<length xs])"
    by simp
  then show ?thesis by (simp only: map_nth)
qed

lemma min_list_scaled:
  fixes c :: real
  assumes "0 < c" and "ks \<noteq> []"
  shows "min_list (map f ks) / c = Min ((\<lambda>k. f k / c) ` set ks)"
proof -
  have m: "mono (\<lambda>v::real. v / c)"
    using assms(1) by (simp add: mono_def divide_right_mono)
  have "min_list (map f ks) = Min (f ` set ks)"
    using assms(2) by (simp add: min_list_Min)
  then have "min_list (map f ks) / c = Min ((\<lambda>v. v / c) ` f ` set ks)"
    using mono_Min_commute[OF m, of "f ` set ks"] assms(2) by simp
  then show ?thesis by (simp add: image_image)
qed

lemma signal_drop_last_axis:
  assumes sh: "shape data = [X, Y, Z, length bvals]"
    and b0: "where_eq0 bvals \<noteq> []" and dw: "where_ne0 bvals \<noteq> []"
  shows "\<exists>r. signal_drop data bvals 3 = Inr r
     \<and> shape (bse_data r) = [X, Y, Z] \<and> shape (minOverGrads r) = [X, Y, Z]
     \<and> shape (minOverGradsNegativeMask r) = [X, Y, Z]
     \<and> (\<forall>x y z. x < X \<and> y < Y \<and> z < Z \<longrightarrow>
          item (bse_data r) [x, y, z]
            = max 1 (np_mean (map (\<lambda>k. item data [x, y, z, k]) (where_eq0 bvals)))
        \<and> item (minOverGrads r) [x, y, z]
            = Min ((\<lambda>k. (item (bse_data r) [x, y, z] - item data [x, y, z, k])
                         / item (bse_data r) [x, y, z]) ` set (where_ne0 bvals))
        \<and> item (minOverGradsNegativeMask r) [x, y, z]
            = (if item (minOverGrads r) [x, y, z] < 0 then 1 else 0))"
proof -
  let ?w0 = "where_eq0 bvals" and ?wd = "where_ne0 bvals"
  let ?nd = "length ?wd"
  have nd: "0 < ?nd" using dw by simp
  have in0: "\<not> list_ex (\<lambda>j. length bvals \<le> j) ?w0"
    using where_eq0_bound by (fastforce simp: list_ex_iff)
  have ind: "\<not> list_ex (\<lambda>j. length bvals \<le> j) ?wd"
    using where_ne0_bound by (fastforce simp: list_ex_iff)
  define b0s where "b0s = \<lparr>shape = [X, Y, Z, length ?w0],
      item = (\<lambda>i. item data (butlast i @ [?w0 ! last i]))\<rparr>"
  have s1: "getitem_last data ?w0 = Inr b0s"
    using in0 by (simp add: getitem_last_def sh b0s_def)
  define mean_b0 where "mean_b0 = \<lparr>shape = [X, Y, Z],
      item = (\<lambda>i. np_mean (map (\<lambda>k. item data (i @ [k])) ?w0))\<rparr>"
  have mv: "map (\<lambda>j. item data (i @ [?w0 ! j])) [0..<length ?w0]
      = map (\<lambda>k. item data (i @ [k])) ?w0" for i
    by (rule map_via_nth)
  have s2: "mean_last b0s = Inr mean_b0"
    using b0 by (simp add: mean_last_def b0s_def mean_b0_def mv)
  define bse where "bse = clamp_below_one mean_b0"
  have bse_shape: "shape bse = [X, Y, Z]"
    by (simp add: bse_def clamp_below_one_def mean_b0_def)
  have bse_item: "item bse i = max 1 (np_mean (map (\<lambda>k. item data (i @ [k])) ?w0))" for i
    by (simp add: bse_def clamp_below_one_def mean_b0_def max_def)
  have bse_pos: "0 < item bse i" for i
    by (simp add: bse_item)
  define expanded where "expanded = \<lparr>shape = [X, Y, Z, 1],
      item = (\<lambda>i. item bse (take 3 i @ drop 4 i))\<rparr>"
  have s3: "expand_dims bse 3 = Inr expanded"
    by (simp add: expand_dims_def bse_shape expanded_def)
  define extend_bse where "extend_bse = \<lparr>shape = [X, Y, Z, ?nd],
      item = (\<lambda>i. item expanded (i[3 := (i ! 3) div ?nd]))\<rparr>"
  have s4: "np_repeat expanded ?nd 3 = Inr extend_bse"
    by (simp add: np_repeat_def expanded_def extend_bse_def)
  define curtail_dwi where "curtail_dwi = \<lparr>shape = [X, Y, Z, ?nd],
      item = (\<lambda>i. item data (i[3 := ?wd ! (i ! 3)]))\<rparr>"
  have s5: "np_take data ?wd 3 = Inr curtail_dwi"
    using ind by (simp add: np_take_def sh curtail_dwi_def)
  define diff where "diff = \<lparr>shape = [X, Y, Z, ?nd],
      item = (\<lambda>i. item extend_bse (bindex [X, Y, Z, ?nd] i)
                  - item curtail_dwi (bindex [X, Y, Z, ?nd] i))\<rparr>"
  have s6: "np_binary (-) extend_bse curtail_dwi = Inr diff"
    by (simp add: np_binary_def extend_bse_def curtail_dwi_def broadcast_shapes_same diff_def)
  define min_diff where "min_diff = \<lparr>shape = [X, Y, Z],
      item = (\<lambda>i. min_list (map (\<lambda>j. item diff (take 3 i @ [j] @ drop 3 i)) [0..<?nd]))\<rparr>"
  have s7: "np_min diff 3 = Inr min_diff"
    using nd by (simp add: np_min_def diff_def min_diff_def)
  define ratio where "ratio = \<lparr>shape = [X, Y, Z],
      item = (\<lambda>i. item min_diff (bindex [X, Y, Z] i) / item bse (bindex [X, Y, Z] i))\<rparr>"
  have s8: "np_binary (/) min_diff bse = Inr ratio"
    by (simp add: np_binary_def min_diff_def bse_shape broadcast_shapes_same ratio_def)
  define r where "r = \<lparr>bse_data = bse, minOverGrads = ratio,
      minOverGradsNegativeMask = less_zero ratio\<rparr>"
  have run: "signal_drop data bvals 3 = Inr r"
    by (simp add: signal_drop_def Let_def s1 s2 s3[unfolded bse_def] s4 s5 s6 s7
        s8[unfolded bse_def] r_def bse_def)
  have point: "item bse [x, y, z]
            = max 1 (np_mean (map (\<lambda>k. item data [x, y, z, k]) ?w0))
        \<and> item ratio [x, y, z]
            = Min ((\<lambda>k. (item bse [x, y, z] - item data [x, y, z, k])
                         / item bse [x, y, z]) ` set ?wd)
        \<and> item (less_zero ratio) [x, y, z] = (if item ratio [x, y, z] < 0 then 1 else 0)"
    if lt: "x < X \<and> y < Y \<and> z < Z" for x y z
  proof -
    have b3: "bindex [X, Y, Z] [x, y, z] = [x, y, z]"
      using lt by (auto simp: bindex_def)
    have d: "item diff [x, y, z, j] = item bse [x, y, z] - item data [x, y, z, ?wd ! j]"
      if "j < ?nd" for j
    proof -
      have "bindex [X, Y, Z, ?nd] [x, y, z, j] = [x, y, z, j]"
        using lt that by (auto simp: bindex_def)
      then show ?thesis
        using that by (simp add: diff_def extend_bse_def curtail_dwi_def expanded_def)
    qed
    have "map (\<lambda>j. item diff [x, y, z, j]) [0..<?nd]
        = map (\<lambda>j. item bse [x, y, z] - item data [x, y, z, ?wd ! j]) [0..<?nd]"
      by (rule map_cong) (simp_all add: d)
    moreover have "item min_diff [x, y, z]
        = min_list (map (\<lambda>j. item diff [x, y, z, j]) [0..<?nd])"
      by (simp add: min_diff_def)
    ultimately have "item min_diff [x, y, z]
        = min_list (map (\<lambda>j. item bse [x, y, z] - item data [x, y, z, ?wd ! j]) [0..<?nd])"
      by (simp only:)
    also have "\<dots> = min_list (map (\<lambda>k. item bse [x, y, z] - item data [x, y, z, k]) ?wd)"
      by (rule arg_cong[where f = min_list]) (rule map_via_nth)
    finally have md: "item min_diff [x, y, z]
        = min_list (map (\<lambda>k. item bse [x, y, z] - item data [x, y, z, k]) ?wd)" .
    have "item ratio [x, y, z] = item min_diff [x, y, z] / item bse [x, y, z]"
      by (simp add: ratio_def b3)
    also have "\<dots> = Min ((\<lambda>k. (item bse [x, y, z] - item data [x, y, z, k])
                         / item bse [x, y, z]) ` set ?wd)"
      unfolding md using min_list_scaled[OF bse_pos dw] by blast
    finally have rt: "item ratio [x, y, z] = Min ((\<lambda>k. (item bse [x, y, z] - item data [x, y, z, k])
                         / item bse [x, y, z]) ` set ?wd)" .
    have bs: "item bse [x, y, z] = max 1 (np_mean (map (\<lambda>k. item data [x, y, z, k]) ?w0))"
      by (simp add: bse_item)
    have mk: "item (less_zero ratio) [x, y, z] = (if item ratio [x, y, z] < 0 then 1 else 0)"
      by (simp add: less_zero_def)
    from bs rt mk show ?thesis by blast
  qed
  have shapes: "shape (bse_data r) = [X, Y, Z]" "shape (minOverGrads r) = [X, Y, Z]"
    "shape (minOverGradsNegativeMask r) = [X, Y, Z]"
    by (simp_all add: r_def bse_shape ratio_def less_zero_def)
  have fields: "bse_data r = bse" "minOverGrads r = ratio"
    "minOverGradsNegativeMask r = less_zero ratio"
    by (simp_all add: r_def)
  have everywhere: "\<forall>x y z. x < X \<and> y < Y \<and> z < Z \<longrightarrow>
          item bse [x, y, z]
            = max 1 (np_mean (map (\<lambda>k. item data [x, y, z, k]) ?w0))
        \<and> item ratio [x, y, z]
            = Min ((\<lambda>k. (item bse [x, y, z] - item data [x, y, z, k])
                         / item bse [x, y, z]) ` set ?wd)
        \<and> item (less_zero ratio) [x, y, z] = (if item ratio [x, y, z] < 0 then 1 else 0)"
    using point by blast
  show ?thesis
    by (rule exI[of _ r]) (use run shapes everywhere in \<open>simp only: fields simp_thms\<close>)
qed

lemma signal_drop_equal_baseline:
  assumes "shape data = [X, Y, Z, length bvals]"
    and "where_eq0 bvals \<noteq> []" and "where_ne0 bvals \<noteq> []"
    and "signal_drop data bvals 3 = Inr r"
    and "x < X" and "y < Y" and "z < Z"
    and eq: "\<forall>k\<in>set (where_ne0 bvals). item data [x, y, z, k] = item (bse_data r) [x, y, z]"
  shows "item (minOverGrads r) [x, y, z] = 0
       \<and> item (minOverGradsNegativeMask r) [x, y, z] = 0"
proof -
  from signal_drop_last_axis[OF assms(1-3)] assms(4-7)
  have rt: "item (minOverGrads r) [x, y, z]
            = Min ((\<lambda>k. (item (bse_data r) [x, y, z] - item data [x, y, z, k])
                         / item (bse_data r) [x, y, z]) ` set (where_ne0 bvals))"
    and mk: "item (minOverGradsNegativeMask r) [x, y, z]
            = (if item (minOverGrads r) [x, y, z] < 0 then 1 else 0)"
    by auto
  have "(\<lambda>k. (item (bse_data r) [x, y, z] - item data [x, y, z, k])
                         / item (bse_data r) [x, y, z]) ` set (where_ne0 bvals) = {0}"
  proof -
    from assms(3) obtain k0 where "k0 \<in> set (where_ne0 bvals)"
      by (cases "where_ne0 bvals") auto
    then show ?thesis using eq by (auto simp: image_iff)
  qed
  then have "item (minOverGrads r) [x, y, z] = 0" using rt by simp
  then show ?thesis using mk by simp
qed

text \<open>
  Claim C1 at a failing input. An NRRD volume of shape \<open>(2, 2, 2, 2)\<close> whose gradient axis
  is the first one, signal 100 in the b0 frame and 50 in the one diffusion frame, with a
  full mask and b-values \<open>[0, 1000]\<close>: the ratio \<open>(100 - 50) / 100 = 0.5\<close> is due at every
  voxel. \<^verbatim>\<open>main\<close> moves the gradients to the last axis but goes on with
  \<^verbatim>\<open>grad_axis = 0\<close>, and the ratio field holds 0 at voxel \<open>(0, 0, 0)\<close>. The same volume
  stored with the gradient axis last gives 0.5 there; a volume of shape \<open>(2, 1, 1, 1)\<close>
  or \<open>(2, 4, 4, 3)\<close> with the gradients first makes the detector raise.
\<close>

theorem signal_drop_stale_grad_axis:
  "ratio_at (quality_signal_drop NRRD (gradient_first_volume [2, 2, 2, 2])
              (full_mask [2, 2, 2]) (Inr 0) [0, 1000]) [0, 0, 0] = Inr 0
   \<and> ratio_at (quality_signal_drop NRRD (gradient_last_volume [2, 2, 2, 2])
              (full_mask [2, 2, 2]) (Inr 3) [0, 1000]) [0, 0, 0] = Inr (1 / 2)
   \<and> ratio_at (quality_signal_drop NRRD (gradient_first_volume [2, 1, 1, 1])
              (full_mask [1, 1, 1]) (Inr 0) [0, 1000]) [0, 0, 0] = Inl IndexError
   \<and> ratio_at (quality_signal_drop NRRD (gradient_first_volume [2, 4, 4, 3])
              (full_mask [4, 4, 3]) (Inr 0) [0, 1000]) [0, 0, 0] = Inl ValueError"
  by code_simp

subsection \<open>The dimensionality check\<close>

lemma nifti_not_4d_raises:
  "length (shape raw) \<noteq> 4 \<Longrightarrow>
     tensor_fit_input NIfTI raw mask_data header_grad_axis = Inl AttributeError"
  by (simp add: tensor_fit_input_def masked_volume_def load_volume_def)

lemma nrrd_load_unchecked:
  "load_volume NRRD raw (Inr 3) = Inr (raw, 3)"
  by (simp add: load_volume_def)

lemma nrrd_load_raises_iff:
  "(\<exists>e. load_volume NRRD raw header_grad_axis = Inl e)
     \<longleftrightarrow> (case header_grad_axis of
            Inl e \<Rightarrow> True
          | Inr g \<Rightarrow> g \<noteq> 3 \<and> (length (shape raw) \<le> g \<or> length (shape raw) \<le> 3))"
  by (auto simp: load_volume_def moveaxis_def Let_def split: sum.splits)

text \<open>
  Claim C9 at a failing input. On the NRRD branch \<^verbatim>\<open>main\<close> has no check of the number of
  dimensions: with a 5-D data array of shape \<open>(4, 4, 4, 5, 1)\<close>, or a 3-D one of shape
  \<open>(4, 4, 4)\<close>, a mask of shape \<open>(4, 4, 4)\<close> and a header for which \<^verbatim>\<open>nrrd_bvals_bvecs\<close>
  returns gradient axis 3, the tensor fit is called with that array. The same arrays in a
  NIfTI file raise AttributeError before the fit.
\<close>

theorem nrrd_dimension_unchecked:
  "tensor_fit_input NRRD (constant_volume [4, 4, 4, 5, 1]) (full_mask [4, 4, 4]) (Inr 3)
     = Inr [4, 4, 4, 5, 1]
   \<and> tensor_fit_input NRRD (constant_volume [4, 4, 4]) (full_mask [4, 4, 4]) (Inr 3)
     = Inr [4, 4, 4]
   \<and> tensor_fit_input NIfTI (constant_volume [4, 4, 4, 5, 1]) (full_mask [4, 4, 4]) (Inr 3)
     = Inl AttributeError
   \<and> tensor_fit_input NIfTI (constant_volume [4, 4, 4]) (full_mask [4, 4, 4]) (Inr 3)
     = Inl AttributeError"
  by code_simp

end
